theory Spec2Isabelle
  imports Main
begin

section \<open>The tasks API of glance (glance/api/v2/tasks.py)\<close>

text \<open>
  The module has three classes: \<open>TasksController\<close> (create, index, get, kill),
  \<open>RequestDeserializer\<close> (turns the parsed request into the arguments of the
  controller) and \<open>ResponseSerializer\<close> (renders a task). Everything they call
  that lives in another module (the gateway with its task factory and task repository,
  the methods of a task object, the JSON parser of the base deserializer, the
  message catalogue \<open>_\<close>, the schema's \<open>filter\<close>, \<open>timeutils.isotime\<close> and
  \<open>json.dumps\<close>) enters the model as a parameter. The task factory is, in addition,
  written out as the specification describes it, for the one statement that is about
  the task a create request ends in.
\<close>

subsection \<open>Exceptions\<close>

text \<open>
  The exceptions the module raises or catches, each with its text (\<open>unicode(e)\<close>):
  \<open>exception.Forbidden\<close> and \<open>exception.NotFound\<close> of glance, the two webob
  responses \<open>HTTPForbidden\<close> and \<open>HTTPBadRequest\<close> (with their \<open>explanation\<close>),
  Python's \<open>AttributeError\<close>, and \<open>Error\<close> for every other exception of a
  collaborator.
\<close>

datatype exn =
    Forbidden string
  | NotFound string
  | HTTPForbidden string
  | HTTPBadRequest string
  | AttributeError string
  | Error string

subsection \<open>RequestDeserializer\<close>

text \<open>
  A Python dict with string keys is a map; the values of the request body are never
  inspected by this module, so their type is a parameter.
\<close>

type_synonym 'v dict = "string \<rightharpoonup> 'v"

definition disallowed_properties :: "string list" where
  "disallowed_properties = [''direct_url'', ''self'', ''file'', ''schema'']"

definition base_properties :: "string list" where
  "base_properties = [''type'', ''status'', ''owner'']"

text \<open>
  \<open>_get_request_body\<close>: \<open>super_default\<close> is \<open>JSONRequestDeserializer.default\<close>,
  which returns a dict that has the key \<open>body\<close> when the request carried one;
  \<open>gettext\<close> is the message catalogue \<open>_\<close>.
\<close>

definition get_request_body ::
  "('r \<Rightarrow> 'b dict) \<Rightarrow> (string \<Rightarrow> string) \<Rightarrow> 'r \<Rightarrow> exn + 'b" where
  "get_request_body super_default gettext request =
     (let output = super_default request in
      case output ''body'' of
        None \<Rightarrow> Inl (HTTPBadRequest (gettext ''Body expected in request.''))
      | Some body \<Rightarrow> Inr body)"

text \<open>The text \<open>"Attribute '%s' is read-only." % key\<close>.\<close>

definition read_only_msg :: "string \<Rightarrow> string" where
  "read_only_msg key = ''Attribute '' @ [CHR 0x27] @ key @ [CHR 0x27] @ '' is read-only.''"

text \<open>
  \<open>_check_allowed\<close>: the loop over the disallowed properties raises at the first
  one that is a key of the dict.
\<close>

fun check_allowed_loop :: "string list \<Rightarrow> 'v dict \<Rightarrow> exn + unit" where
  "check_allowed_loop [] task = Inr ()"
| "check_allowed_loop (key # keys) task =
     (if key \<in> dom task then Inl (HTTPForbidden (read_only_msg key))
      else check_allowed_loop keys task)"

definition check_allowed :: "'v dict \<Rightarrow> exn + unit" where
  "check_allowed task = check_allowed_loop disallowed_properties task"

text \<open>\<open>dict.pop(key)\<close>: the value and the dict without the key; \<open>None\<close> is KeyError.\<close>

definition pop :: "'v dict \<Rightarrow> string \<Rightarrow> ('v \<times> 'v dict) option" where
  "pop d key = (case d key of None \<Rightarrow> None | Some v \<Rightarrow> Some (v, d(key := None)))"

text \<open>
  The loop of \<open>create\<close> over the base properties. \<open>properties\<close> is the body itself
  (the same object), so the loop carries both dicts.
\<close>

fun create_loop :: "string list \<Rightarrow> 'v dict \<times> 'v dict \<Rightarrow> 'v dict \<times> 'v dict" where
  "create_loop [] (task, properties) = (task, properties)"
| "create_loop (key # keys) (task, properties) =
     (case pop properties key of
        None \<Rightarrow> create_loop keys (task, properties)
      | Some (v, properties') \<Rightarrow> create_loop keys (task(key \<mapsto> v), properties'))"

text \<open>\<open>RequestDeserializer.create\<close>; it returns \<open>dict(task=task)\<close>.\<close>

definition RequestDeserializer_create ::
  "('r \<Rightarrow> 'v dict dict) \<Rightarrow> (string \<Rightarrow> string) \<Rightarrow> 'r \<Rightarrow> exn + 'v dict dict" where
  "RequestDeserializer_create super_default gettext request =
     (case get_request_body super_default gettext request of
        Inl e \<Rightarrow> Inl e
      | Inr body \<Rightarrow>
          (case check_allowed body of
             Inl e \<Rightarrow> Inl e
           | Inr _ \<Rightarrow>
               (let (task, properties) = create_loop base_properties (Map.empty, body)
                in Inr [''task'' \<mapsto> task])))"

subsection \<open>TasksController\<close>

text \<open>
  A method of a collaborator runs on the state of the world outside the controller
  (the database, the task objects) and either raises or returns; the state it leaves
  is there in both cases, since nothing rolls a raised call back.
\<close>

type_synonym ('a, 's) action = "'s \<Rightarrow> (exn + 'a) \<times> 's"

record 'c request =
  req_context :: 'c

text \<open>
  The gateway, with the objects it hands out. \<open>'t\<close> is a task object (a reference:
  what \<open>run\<close> and \<open>remove\<close> change lives in the state), \<open>'c\<close> the request context,
  \<open>'v\<close> the values of the request body.
  \<^item> \<open>new_task gateway c req task\<close> is \<open>gateway.get_task_factory(c).new_task(req, task)\<close>;
  \<^item> \<open>repo_add\<close>, \<open>repo_list\<close>, \<open>repo_get\<close>, \<open>repo_save\<close> at \<open>c\<close> are the methods
    \<open>add\<close>, \<open>list\<close>, \<open>get\<close>, \<open>save\<close> of \<open>gateway.get_task_repo(c)\<close>;
  \<^item> \<open>task_run gateway t\<close> is \<open>t.run()\<close> and \<open>task_remove gateway t\<close> is \<open>t.remove()\<close>.
\<close>

record ('c, 'v, 't, 's) gateway =
  new_task :: "'c \<Rightarrow> 'c request \<Rightarrow> 'v dict \<Rightarrow> ('t, 's) action"
  repo_add :: "'c \<Rightarrow> 't \<Rightarrow> (unit, 's) action"
  repo_list :: "'c \<Rightarrow> ('t list, 's) action"
  repo_get :: "'c \<Rightarrow> string \<Rightarrow> ('t, 's) action"
  repo_save :: "'c \<Rightarrow> 't \<Rightarrow> (unit, 's) action"
  task_run :: "'t \<Rightarrow> (unit, 's) action"
  task_remove :: "'t \<Rightarrow> (unit, 's) action"

text \<open>
  The handler of \<open>create\<close>:
  \<open>except exception.Forbidden as e: raise webob.exc.HTTPForbidden(explanation=unicode(e))\<close>.
  Every other exception passes through.
\<close>

fun except_Forbidden :: "exn \<Rightarrow> exn" where
  "except_Forbidden (Forbidden msg) = HTTPForbidden msg"
| "except_Forbidden e = e"

text \<open>
  \<open>TasksController.create\<close>, the function under the decorator \<open>utils.mutating\<close>
  (the decorator is defined in glance.common.utils). The three calls of the
  \<open>try\<close> block, each under the handler.
\<close>

definition TasksController_create ::
  "('c, 'v, 't, 's) gateway \<Rightarrow> 'c request \<Rightarrow> 'v dict \<Rightarrow> ('t, 's) action" where
  "TasksController_create gateway req task s =
     (case new_task gateway (req_context req) req task s of
        (Inl e, s1) \<Rightarrow> (Inl (except_Forbidden e), s1)
      | (Inr task', s1) \<Rightarrow>
          (case repo_add gateway (req_context req) task' s1 of
             (Inl e, s2) \<Rightarrow> (Inl (except_Forbidden e), s2)
           | (Inr _, s2) \<Rightarrow>
               (case task_run gateway task' s2 of
                  (Inl e, s3) \<Rightarrow> (Inl (except_Forbidden e), s3)
                | (Inr _, s3) \<Rightarrow> (Inr task', s3))))"

definition TasksController_index ::
  "('c, 'v, 't, 's) gateway \<Rightarrow> 'c request \<Rightarrow> ('t list, 's) action" where
  "TasksController_index gateway req s = repo_list gateway (req_context req) s"

definition TasksController_get ::
  "('c, 'v, 't, 's) gateway \<Rightarrow> 'c request \<Rightarrow> string \<Rightarrow> ('t, 's) action" where
  "TasksController_get gateway req task_id s = repo_get gateway (req_context req) task_id s"


subsection \<open>Observing the calls a controller makes\<close>

text \<open>
  To state in which order the controller calls its collaborators, a gateway is
  wrapped so that every call is written to a journal (whether it returns or
  raises) before its effect on the state.
\<close>

datatype ('c, 'v, 't) call =
    NewTask "'c request" "'v dict"
  | RepoAdd 't
  | RepoList
  | RepoGet string
  | RepoSave 't
  | TaskRun 't
  | TaskRemove 't

definition journal ::
  "('c, 'v, 't) call \<Rightarrow> ('a, 's) action \<Rightarrow> ('a, ('c, 'v, 't) call list \<times> 's) action" where
  "journal c act = (\<lambda>(calls, s). case act s of (r, s') \<Rightarrow> (r, (calls @ [c], s')))"

definition journalled ::
  "('c, 'v, 't, 's) gateway \<Rightarrow> ('c, 'v, 't, ('c, 'v, 't) call list \<times> 's) gateway" where
  "journalled gateway =
     \<lparr> new_task = (\<lambda>c req task. journal (NewTask req task) (new_task gateway c req task)),
       repo_add = (\<lambda>c t. journal (RepoAdd t) (repo_add gateway c t)),
       repo_list = (\<lambda>c. journal RepoList (repo_list gateway c)),
       repo_get = (\<lambda>c task_id. journal (RepoGet task_id) (repo_get gateway c task_id)),
       repo_save = (\<lambda>c t. journal (RepoSave t) (repo_save gateway c t)),
       task_run = (\<lambda>t. journal (TaskRun t) (task_run gateway t)),
       task_remove = (\<lambda>t. journal (TaskRemove t) (task_remove gateway t)) \<rparr>"

subsection \<open>A small gateway to run the controller on\<close>

text \<open>
  The repository is a list of the tasks added, each with its status; a task object is
  its identifier; the policy is the list of the operations it denies. It serves as
  the concrete collaborator wherever a statement about every gateway is tried on one.
\<close>

type_synonym store = "(string \<times> string) list"

definition denial :: "string list \<Rightarrow> string \<Rightarrow> exn option" where
  "denial policy operation =
     (if operation \<in> set policy
      then Some (Forbidden (''You are not authorized to '' @ operation @ '' a task.''))
      else None)"

definition fresh_id :: "store \<Rightarrow> string" where
  "fresh_id s = ''task-'' @ replicate (Suc (length s)) (CHR ''I'')"

definition set_status :: "string \<Rightarrow> string \<Rightarrow> store \<Rightarrow> store" where
  "set_status t st s = map (\<lambda>(i, x). if i = t then (i, st) else (i, x)) s"

definition store_gateway :: "string list \<Rightarrow> (unit, string, string, store) gateway" where
  "store_gateway policy =
     \<lparr> new_task = (\<lambda>c req task s.
         case denial policy ''create'' of
           Some e \<Rightarrow> (Inl e, s)
         | None \<Rightarrow> (Inr (fresh_id s), s)),
       repo_add = (\<lambda>c t s.
         case denial policy ''add'' of
           Some e \<Rightarrow> (Inl e, s)
         | None \<Rightarrow> (Inr (), s @ [(t, ''queued'')])),
       repo_list = (\<lambda>c s. (Inr (map fst s), s)),
       repo_get = (\<lambda>c task_id s.
         if task_id \<in> fst ` set s then (Inr task_id, s)
         else (Inl (NotFound (''No task found with ID '' @ task_id)), s)),
       repo_save = (\<lambda>c t s. (Inr (), s)),
       task_run = (\<lambda>t s.
         case denial policy ''run'' of
           Some e \<Rightarrow> (Inl e, s)
         | None \<Rightarrow> (Inr (), set_status t ''processing'' s)),
       task_remove = (\<lambda>t s. (Inr (), set_status t ''failure'' s)) \<rparr>"

subsection \<open>ResponseSerializer\<close>

text \<open>
  The attributes of a task object the serializer reads. Their values are Python
  values the serializer passes on, so their type is a parameter.
\<close>

record 'a task =
  type :: 'a
  status :: 'a
  owner :: 'a
  message :: 'a
  task_id :: 'a
  created_at :: 'a
  updated_at :: 'a

text \<open>\<open>getattr(task, key)\<close>; any other name raises AttributeError.\<close>

definition getattr :: "'a task \<Rightarrow> string \<Rightarrow> exn + 'a" where
  "getattr task key =
     (if key = ''type'' then Inr (type task)
      else if key = ''status'' then Inr (status task)
      else if key = ''owner'' then Inr (owner task)
      else if key = ''message'' then Inr (message task)
      else if key = ''task_id'' then Inr (task_id task)
      else if key = ''created_at'' then Inr (created_at task)
      else if key = ''updated_at'' then Inr (updated_at task)
      else Inl (AttributeError key))"

text \<open>
  A value of the task view: an attribute of the task as it is, or a string the
  serializer makes.
\<close>

datatype 'a view_value = Attr 'a | Str string

text \<open>The loop \<open>for key in attributes: task_view[key] = getattr(task, key)\<close>.\<close>

fun format_attributes ::
  "string list \<Rightarrow> 'a task \<Rightarrow> 'a view_value dict \<Rightarrow> exn + 'a view_value dict" where
  "format_attributes [] task task_view = Inr task_view"
| "format_attributes (key # keys) task task_view =
     (case getattr task key of
        Inl e \<Rightarrow> Inl e
      | Inr v \<Rightarrow> format_attributes keys task (task_view(key \<mapsto> Attr v)))"

text \<open>
  \<open>_format_task\<close>. \<open>schema_filter\<close> is \<open>self.schema.filter\<close> (glance.schema) and
  \<open>isotime\<close> is \<open>timeutils.isotime\<close>.
\<close>

definition format_task ::
  "('a view_value dict \<Rightarrow> 'a view_value dict) \<Rightarrow> ('a \<Rightarrow> string) \<Rightarrow> 'a task
     \<Rightarrow> exn + 'a view_value dict" where
  "format_task schema_filter isotime task =
     (case format_attributes [''type'', ''status'', ''owner'', ''message''] task Map.empty of
        Inl e \<Rightarrow> Inl e
      | Inr task_view \<Rightarrow>
          Inr (schema_filter
            (task_view(''id'' \<mapsto> Attr (task_id task),
                       ''created_at'' \<mapsto> Str (isotime (created_at task)),
                       ''updated_at'' \<mapsto> Str (isotime (updated_at task)),
                       ''schema'' \<mapsto> Str ''/v2/schemas/task''))))"

record response =
  status_int :: int
  unicode_body :: string
  content_type :: string

text \<open>\<open>ResponseSerializer.get\<close>; \<open>dumps\<close> is \<open>json.dumps(_, ensure_ascii=False)\<close>.\<close>

definition ResponseSerializer_get ::
  "('a view_value dict \<Rightarrow> 'a view_value dict) \<Rightarrow> ('a \<Rightarrow> string)
     \<Rightarrow> ('a view_value dict \<Rightarrow> string) \<Rightarrow> response \<Rightarrow> 'a task \<Rightarrow> exn + response" where
  "ResponseSerializer_get schema_filter isotime dumps response task =
     (case format_task schema_filter isotime task of
        Inl e \<Rightarrow> Inl e
      | Inr task_view \<Rightarrow>
          (let body = dumps task_view
           in Inr (response\<lparr>unicode_body := body, content_type := ''application/json''\<rparr>)))"

text \<open>\<open>ResponseSerializer.create\<close>.\<close>

definition ResponseSerializer_create ::
  "('a view_value dict \<Rightarrow> 'a view_value dict) \<Rightarrow> ('a \<Rightarrow> string)
     \<Rightarrow> ('a view_value dict \<Rightarrow> string) \<Rightarrow> response \<Rightarrow> 'a task \<Rightarrow> exn + response" where
  "ResponseSerializer_create schema_filter isotime dumps response task =
     ResponseSerializer_get schema_filter isotime dumps (response\<lparr>status_int := 201\<rparr>) task"

subsection \<open>A schema that keeps its own properties\<close>



subsection \<open>The task factory\<close>

text \<open>
  Modelled from the spec: the closed enumeration of task types,
  \<open>{import, export, clone}\<close> (sections 3 and 6); the factory that checks it is not
  in tasks.py.
\<close>

definition task_types :: "string list" where
  "task_types = [''import'', ''export'', ''clone'']"

text \<open>
  Modelled from the spec: what the task factory (\<open>get_task_factory(...)\<close>, not in
  tasks.py) works with, section 4.2: the policy's answer to creating a task and to
  overriding the owner, the acting principal's identifier, the generator of fresh
  identifiers, and the clock. The specification leaves open whether a status in the
  client's input is ignored or rejected; \<open>rejects_status\<close> says which.
\<close>

record ('c, 's) task_factory =
  permits_create :: "'c \<Rightarrow> bool"
  grants_owner_override :: "'c \<Rightarrow> bool"
  principal :: "'c \<Rightarrow> string"
  generate_id :: "'s \<Rightarrow> string \<times> 's"
  now :: "'s \<Rightarrow> string"
  rejects_status :: bool

text \<open>
  Modelled from the spec: \<open>TaskFactory.new_task\<close>, which is not in tasks.py.
  Section 4.2: a disallowed key in the input is rejected with Forbidden before
  construction; the factory is policy-checked; a \<open>status\<close> in the input is ignored
  or rejected, and a new task always starts at \<open>queued\<close>; \<open>type\<close> must be one of
  the enumeration, else ValidationError (here \<open>Error\<close>, with that text); \<open>owner\<close>
  defaults to the acting principal unless the policy grants the override; the task
  has a freshly generated \<open>id\<close>, \<open>created_at = updated_at = now\<close>, an empty
  message, and nothing is persisted.
\<close>

definition TaskFactory_new_task ::
  "('c, 's) task_factory \<Rightarrow> 'c \<Rightarrow> 'c request \<Rightarrow> string dict \<Rightarrow> (string task, 's) action" where
  "TaskFactory_new_task factory c req props s =
     (if list_ex (\<lambda>key. key \<in> dom props) disallowed_properties
      then (Inl (Forbidden ''A read-only attribute was supplied.''), s)
      else if \<not> permits_create factory c
      then (Inl (Forbidden ''You are not authorized to create a task.''), s)
      else if rejects_status factory \<and> ''status'' \<in> dom props
      then (Inl (Error ''ValidationError: status cannot be set.''), s)
      else
        (case props ''type'' of
           None \<Rightarrow> (Inl (Error ''ValidationError: type is required.''), s)
         | Some ty \<Rightarrow>
             if ty \<notin> set task_types
             then (Inl (Error ''ValidationError: unknown type.''), s)
             else
               (case generate_id factory s of
                  (i, s') \<Rightarrow>
                    (Inr \<lparr> type = ty,
                           status = ''queued'',
                           owner =
                             (case props ''owner'' of
                                None \<Rightarrow> principal factory c
                              | Some ow \<Rightarrow>
                                  if grants_owner_override factory c then ow
                                  else principal factory c),
                           message = [],
                           task_id = i,
                           created_at = now factory s',
                           updated_at = now factory s' \<rparr>, s'))))"

text \<open>
  A factory and a gateway to try statements on: the repository is the list of the
  tasks added, the principal is alice, who may create tasks and may not override the
  owner, and a status in the input is ignored.
\<close>

definition list_factory :: "(unit, string task list) task_factory" where
  "list_factory =
     \<lparr> permits_create = (\<lambda>c. True),
       grants_owner_override = (\<lambda>c. False),
       principal = (\<lambda>c. ''alice''),
       generate_id = (\<lambda>s. (''task-'' @ replicate (Suc (length s)) (CHR ''I''), s)),
       now = (\<lambda>s. ''2013-01-01T00:00:00Z''),
       rejects_status = False \<rparr>"

definition list_gateway :: "(unit, string, string task, string task list) gateway" where
  "list_gateway =
     \<lparr> new_task = TaskFactory_new_task list_factory,
       repo_add = (\<lambda>c t s. (Inr (), s @ [t])),
       repo_list = (\<lambda>c s. (Inr s, s)),
       repo_get = (\<lambda>c task_id' s.
         case find (\<lambda>t. task_id t = task_id') s of
           None \<Rightarrow> (Inl (NotFound (''No task found with ID '' @ task_id')), s)
         | Some t \<Rightarrow> (Inr t, s)),
       repo_save = (\<lambda>c t s. (Inr (), s)),
       task_run = (\<lambda>t s.
         (Inr (), map (\<lambda>x. if task_id x = task_id t then x\<lparr>status := ''processing''\<rparr> else x) s)),
       task_remove = (\<lambda>t s.
         (Inr (), map (\<lambda>x. if task_id x = task_id t then x\<lparr>status := ''failure''\<rparr> else x) s)) \<rparr>"

section \<open>Properties of the deserializer\<close>

lemma check_allowed_loop_Inr:
  "(check_allowed_loop keys task = Inr ()) = (set keys \<inter> dom task = {})"
  by (induction keys) auto

lemma check_allowed_loop_Inl:
  "set keys \<inter> dom task \<noteq> {} \<Longrightarrow>
     \<exists>key \<in> set keys \<inter> dom task. check_allowed_loop keys task = Inl (HTTPForbidden (read_only_msg key))"
  by (induction keys) auto

lemma create_loop_restrict:
  "create_loop keys (task, properties) =
     (task ++ (properties |` set keys), properties |` (- set keys))"
proof (induction keys arbitrary: task properties)
  case Nil
  show ?case by (simp add: restrict_map_def)
next
  case (Cons key keys)
  show ?case
  proof (cases "properties key")
    case None
    have a: "properties |` set (key # keys) = properties |` set keys"
      using None by (auto simp: restrict_map_def fun_eq_iff)
    have b: "properties |` (- set (key # keys)) = properties |` (- set keys)"
      using None by (auto simp: restrict_map_def fun_eq_iff)
    have "create_loop (key # keys) (task, properties) = create_loop keys (task, properties)"
      using None by (simp add: pop_def)
    then show ?thesis unfolding a b by (simp only: Cons.IH)
  next
    case (Some v)
    have a: "task ++ (properties |` set (key # keys)) =
          task(key \<mapsto> v) ++ (properties(key := None) |` set keys)"
      using Some by (auto simp: map_add_def restrict_map_def fun_eq_iff split: option.splits)
    have b: "properties |` (- set (key # keys)) = properties(key := None) |` (- set keys)"
      by (auto simp: restrict_map_def fun_eq_iff)
    have "create_loop (key # keys) (task, properties) =
          create_loop keys (task(key \<mapsto> v), properties(key := None))"
      using Some by (simp add: pop_def)
    then show ?thesis unfolding a b by (simp only: Cons.IH)
  qed
qed

lemma set_base_properties: "set base_properties = {''type'', ''status'', ''owner''}"
  by (simp add: base_properties_def)

lemma set_disallowed_properties:
  "set disallowed_properties = {''direct_url'', ''self'', ''file'', ''schema''}"
  by (simp add: disallowed_properties_def)

text \<open>A body with none of the disallowed keys: the base properties it has are handed on.\<close>

lemma deserializer_accepts:
  assumes "super_default request ''body'' = Some body"
    and "set disallowed_properties \<inter> dom body = {}"
  shows "RequestDeserializer_create super_default gettext request =
           Inr [''task'' \<mapsto> body |` set base_properties]"
proof -
  from assms(2) have "check_allowed_loop disallowed_properties body = Inr ()"
    by (simp add: check_allowed_loop_Inr)
  with assms(1) show ?thesis
    by (simp add: RequestDeserializer_create_def get_request_body_def check_allowed_def
        create_loop_restrict)
qed

text \<open>A body with a disallowed key: \<open>_check_allowed\<close> raises, and so does \<open>create\<close>.\<close>

lemma deserializer_rejects:
  assumes "super_default request ''body'' = Some body"
    and "set disallowed_properties \<inter> dom body \<noteq> {}"
  shows "\<exists>key \<in> set disallowed_properties \<inter> dom body.
           check_allowed body = Inl (HTTPForbidden (read_only_msg key)) \<and>
           RequestDeserializer_create super_default gettext request =
             Inl (HTTPForbidden (read_only_msg key))"
proof -
  from check_allowed_loop_Inl [OF assms(2)] obtain key
    where k: "key \<in> set disallowed_properties \<inter> dom body"
      and e: "check_allowed_loop disallowed_properties body =
                Inl (HTTPForbidden (read_only_msg key))"
    by blast
  from e assms(1) have "RequestDeserializer_create super_default gettext request =
             Inl (HTTPForbidden (read_only_msg key))"
    by (simp add: RequestDeserializer_create_def get_request_body_def check_allowed_def)
  with k e show ?thesis by (auto simp: check_allowed_def)
qed

text \<open>Whenever \<open>create\<close> returns, it has gone through both checks.\<close>

lemma deserializer_returns:
  assumes "RequestDeserializer_create super_default gettext request = Inr out"
  shows "\<exists>body. super_default request ''body'' = Some body \<and>
           set disallowed_properties \<inter> dom body = {} \<and>
           out = [''task'' \<mapsto> body |` set base_properties]"
proof (cases "super_default request ''body''")
  case None
  with assms show ?thesis
    by (simp add: RequestDeserializer_create_def get_request_body_def)
next
  case (Some body)
  show ?thesis
  proof (cases "set disallowed_properties \<inter> dom body = {}")
    case True
    from deserializer_accepts [of super_default request body gettext, OF Some True] assms Some True
    show ?thesis by simp
  next
    case False
    from deserializer_rejects [of super_default request body gettext, OF Some False] assms
    show ?thesis by auto
  qed
qed

subsection \<open>A missing body\<close>

text \<open>
  Claim C8. When the parsed request has no \<open>body\<close>, \<open>RequestDeserializer.create\<close>
  fails with HTTPBadRequest whose explanation is the catalogue's text for
  'Body expected in request.'. The error is the one \<open>_get_request_body\<close> raises, the
  first statement of \<open>create\<close>: neither the key check nor the loop that builds the
  task mapping is reached.
\<close>

theorem create_without_body_bad_request:
  assumes "super_default request ''body'' = None"
  shows "get_request_body super_default gettext request =
           Inl (HTTPBadRequest (gettext ''Body expected in request.'')) \<and>
         RequestDeserializer_create super_default gettext request =
           Inl (HTTPBadRequest (gettext ''Body expected in request.''))"
  using assms by (simp add: RequestDeserializer_create_def get_request_body_def)

theorem create_without_body_bad_request_witness:
  "(Map.empty :: string dict dict) ''body'' = None \<and>
   RequestDeserializer_create (\<lambda>request :: unit. (Map.empty :: string dict dict))
     (\<lambda>msg. msg) () = Inl (HTTPBadRequest ''Body expected in request.'')"
  using create_without_body_bad_request
    [of "\<lambda>request :: unit. (Map.empty :: string dict dict)" "()" "\<lambda>msg. msg"]
  by simp

subsection \<open>Disallowed keys\<close>

text \<open>
  Claim C2. When the body of a create request has one of the keys \<open>direct_url\<close>,
  \<open>self\<close>, \<open>file\<close>, \<open>schema\<close>, the request fails with HTTPForbidden, naming a
  disallowed key the body has as read-only. The error comes from \<open>_check_allowed\<close>,
  so \<open>create\<close> returns no task mapping: nothing is handed on to be constructed or
  persisted.
\<close>

theorem create_disallowed_key_forbidden:
  assumes "super_default request ''body'' = Some body"
    and "key \<in> {''direct_url'', ''self'', ''file'', ''schema''}"
    and "key \<in> dom body"
  shows "\<exists>k \<in> {''direct_url'', ''self'', ''file'', ''schema''} \<inter> dom body.
           check_allowed body = Inl (HTTPForbidden (read_only_msg k)) \<and>
           RequestDeserializer_create super_default gettext request =
             Inl (HTTPForbidden (read_only_msg k))"
proof -
  from assms(2,3) have "set disallowed_properties \<inter> dom body \<noteq> {}"
    unfolding set_disallowed_properties by blast
  with assms(1) show ?thesis
    unfolding set_disallowed_properties [symmetric] by (rule deserializer_rejects)
qed

theorem create_disallowed_key_forbidden_witness:
  "RequestDeserializer_create
     (\<lambda>request :: unit. [''body'' \<mapsto> [''type'' \<mapsto> ''import'', ''file'' \<mapsto> ''/etc/passwd'']])
     (\<lambda>msg. msg) () = Inl (HTTPForbidden (read_only_msg ''file''))"
  using create_disallowed_key_forbidden
    [of "\<lambda>request :: unit. [''body'' \<mapsto> [''type'' \<mapsto> ''import'', ''file'' \<mapsto> ''/etc/passwd'']]"
      "()" "[''type'' \<mapsto> ''import'', ''file'' \<mapsto> ''/etc/passwd'']" "''file''" "\<lambda>msg. msg"]
  by (auto simp: read_only_msg_def)

subsection \<open>What is handed on\<close>

text \<open>
  Claim C6. Whenever \<open>RequestDeserializer.create\<close> returns, the mapping it hands on
  under \<open>task\<close> is the body restricted to the keys \<open>type\<close>, \<open>status\<close>, \<open>owner\<close>:
  it has no other key, whatever else the body had.
\<close>

theorem create_forwards_base_properties_only:
  assumes "RequestDeserializer_create super_default gettext request = Inr out"
  shows "\<exists>body task. super_default request ''body'' = Some body \<and>
           out = [''task'' \<mapsto> task] \<and>
           task = body |` {''type'', ''status'', ''owner''} \<and>
           dom task \<subseteq> {''type'', ''status'', ''owner''}"
  using deserializer_returns [OF assms] unfolding set_base_properties by auto

theorem create_forwards_base_properties_only_witness:
  "RequestDeserializer_create
     (\<lambda>request :: unit. [''body'' \<mapsto> [''type'' \<mapsto> ''import'', ''input'' \<mapsto> ''x'']])
     (\<lambda>msg. msg) () =
     Inr [''task'' \<mapsto> [''type'' \<mapsto> ''import'', ''input'' \<mapsto> ''x''] |` {''type'', ''status'', ''owner''}] \<and>
   dom ([''type'' \<mapsto> ''import'', ''input'' \<mapsto> ''x''] |` {''type'', ''status'', ''owner''}) = {''type''}"
  using create_forwards_base_properties_only
    [of "\<lambda>request :: unit. [''body'' \<mapsto> [''type'' \<mapsto> ''import'', ''input'' \<mapsto> ''x'']]"
      "\<lambda>msg. msg" "()"]
  by (auto simp: RequestDeserializer_create_def get_request_body_def check_allowed_def
      disallowed_properties_def base_properties_def pop_def restrict_map_def fun_eq_iff dom_def)

text \<open>
  Claim C9. With a body present, \<open>RequestDeserializer.create\<close> raises exactly when
  the body has one of the four disallowed keys. Otherwise it returns, and the task
  mapping has, for each of \<open>type\<close>, \<open>status\<close>, \<open>owner\<close>, the body's entry when there
  is one and no entry when there is none; every other key of the body is dropped.
\<close>

theorem create_raises_iff_disallowed:
  assumes "super_default request ''body'' = Some body"
  shows "((\<exists>e. RequestDeserializer_create super_default gettext request = Inl e) \<longleftrightarrow>
            (\<exists>key \<in> {''direct_url'', ''self'', ''file'', ''schema''}. key \<in> dom body)) \<and>
         ((\<forall>key \<in> {''direct_url'', ''self'', ''file'', ''schema''}. key \<notin> dom body) \<longrightarrow>
            (\<exists>task. RequestDeserializer_create super_default gettext request =
                      Inr [''task'' \<mapsto> task] \<and>
               (\<forall>key. task key =
                  (if key \<in> {''type'', ''status'', ''owner''} then body key else None))))"
proof (cases "set disallowed_properties \<inter> dom body = {}")
  case True
  from deserializer_accepts [of super_default request body gettext, OF assms True]
  have "RequestDeserializer_create super_default gettext request =
          Inr [''task'' \<mapsto> body |` {''type'', ''status'', ''owner''}]"
    unfolding set_base_properties .
  moreover have "\<forall>key. (body |` {''type'', ''status'', ''owner''}) key =
      (if key \<in> {''type'', ''status'', ''owner''} then body key else None)"
    by (simp add: restrict_map_def)
  ultimately show ?thesis using True unfolding set_disallowed_properties by auto
next
  case False
  from deserializer_rejects [of super_default request body gettext, OF assms False]
  show ?thesis using False unfolding set_disallowed_properties by auto
qed

theorem create_raises_iff_disallowed_witness:
  "RequestDeserializer_create
     (\<lambda>request :: unit. [''body'' \<mapsto> [''owner'' \<mapsto> ''alice'', ''input'' \<mapsto> ''x'']])
     (\<lambda>msg. msg) () = Inr [''task'' \<mapsto> [''owner'' \<mapsto> ''alice'']]"
proof -
  let ?body = "[''owner'' \<mapsto> ''alice'', ''input'' \<mapsto> ''x'']"
  have "\<forall>key \<in> {''direct_url'', ''self'', ''file'', ''schema''}. key \<notin> dom ?body"
    by simp
  with create_raises_iff_disallowed
    [of "\<lambda>request :: unit. [''body'' \<mapsto> ?body]" "()" ?body "\<lambda>msg. msg"]
  obtain task
    where t: "RequestDeserializer_create (\<lambda>request :: unit. [''body'' \<mapsto> ?body])
                (\<lambda>msg. msg) () = Inr [''task'' \<mapsto> task]"
      and k: "\<forall>key. task key =
                (if key \<in> {''type'', ''status'', ''owner''} then ?body key else None)"
    by auto
  from k have "task = [''owner'' \<mapsto> ''alice'']"
    by (auto simp: fun_eq_iff)
  with t show ?thesis by simp
qed

section \<open>Properties of the controller\<close>

lemma journal_apply:
  "journal c act (calls, s) = (case act s of (r, s') \<Rightarrow> (r, (calls @ [c], s')))"
  by (simp add: journal_def)

lemma journalled_sel:
  "new_task (journalled gateway) c req task =
     journal (NewTask req task) (new_task gateway c req task)"
  "repo_add (journalled gateway) c t = journal (RepoAdd t) (repo_add gateway c t)"
  "repo_get (journalled gateway) c tid = journal (RepoGet tid) (repo_get gateway c tid)"
  "repo_save (journalled gateway) c t = journal (RepoSave t) (repo_save gateway c t)"
  "task_run (journalled gateway) t = journal (TaskRun t) (task_run gateway t)"
  "task_remove (journalled gateway) t = journal (TaskRemove t) (task_remove gateway t)"
  by (simp_all add: journalled_def)

lemma store_gateway_sel:
  "new_task (store_gateway policy) c req task s =
     (case denial policy ''create'' of Some e \<Rightarrow> (Inl e, s) | None \<Rightarrow> (Inr (fresh_id s), s))"
  "repo_add (store_gateway policy) c t s =
     (case denial policy ''add'' of Some e \<Rightarrow> (Inl e, s)
      | None \<Rightarrow> (Inr (), s @ [(t, ''queued'')]))"
  "repo_get (store_gateway policy) c tid s =
     (if tid \<in> fst ` set s then (Inr tid, s)
      else (Inl (NotFound (''No task found with ID '' @ tid)), s))"
  "repo_save (store_gateway policy) c t s = (Inr (), s)"
  "task_run (store_gateway policy) t s =
     (case denial policy ''run'' of Some e \<Rightarrow> (Inl e, s)
      | None \<Rightarrow> (Inr (), set_status t ''processing'' s))"
  "task_remove (store_gateway policy) t s = (Inr (), set_status t ''failure'' s)"
  by (simp_all add: store_gateway_def)

subsection \<open>A status the client supplies\<close>

text \<open>Whatever the input, a task the factory makes is queued and has a generated identifier.\<close>

lemma new_task_queued:
  assumes "TaskFactory_new_task factory c req props s = (Inr t, s1)"
  shows "status t = ''queued'' \<and> task_id t = fst (generate_id factory s)"
  using assms
  by (auto simp: TaskFactory_new_task_def split: if_splits option.splits prod.splits)

text \<open>The factory's result does not depend on which status the input has.\<close>

lemma new_task_any_status:
  assumes "props ''status'' = Some v"
  shows "TaskFactory_new_task factory c req (props(''status'' \<mapsto> v')) s =
         TaskFactory_new_task factory c req props s"
proof -
  have "list_ex (\<lambda>key. key \<in> dom (props(''status'' \<mapsto> v'))) disallowed_properties =
        list_ex (\<lambda>key. key \<in> dom props) disallowed_properties"
    by (simp add: disallowed_properties_def)
  moreover have "''status'' \<in> dom props" using assms by auto
  ultimately show ?thesis
    by (simp add: TaskFactory_new_task_def split: option.splits prod.splits)
qed

lemma list_gateway_sel:
  "new_task list_gateway = TaskFactory_new_task list_factory"
  "repo_add list_gateway c t s = (Inr (), s @ [t])"
  "task_run list_gateway t s =
     (Inr (), map (\<lambda>x. if task_id x = task_id t then x\<lparr>status := ''processing''\<rparr> else x) s)"
  by (simp_all add: list_gateway_def)

text \<open>
  Claim C1. The status a client supplies never becomes the status of the new task.
  \<open>RequestDeserializer.create\<close> does hand the client's \<open>status\<close> on, unchanged,
  in the task mapping; what becomes of it is decided by the factory's \<open>new_task\<close>,
  which is not in tasks.py and is taken as the specification describes it. With that
  factory behind \<open>TasksController.create\<close> (the function under \<open>utils.mutating\<close>),
  and any repository and any task methods: every task the controller hands to the
  repository's \<open>add\<close>, and the task it returns, has the status \<open>queued\<close> and the
  identifier the factory's generator gave; and the outcome of \<open>create\<close> is the same
  whatever value the client's \<open>status\<close> has.
\<close>

theorem created_task_starts_queued:
  assumes "super_default request ''body'' = Some body"
    and "body ''status'' = Some v"
    and "RequestDeserializer_create super_default gettext request = Inr [''task'' \<mapsto> props]"
    and "TasksController_create
           (journalled (gateway\<lparr>new_task := TaskFactory_new_task factory\<rparr>)) req props ([], s) =
         (r, (calls, s'))"
  shows "props ''status'' = Some v \<and>
         (\<forall>t. RepoAdd t \<in> set calls \<longrightarrow>
            status t = ''queued'' \<and> task_id t = fst (generate_id factory s)) \<and>
         (\<forall>t. r = Inr t \<longrightarrow>
            RepoAdd t \<in> set calls \<and> status t = ''queued'' \<and>
            task_id t = fst (generate_id factory s)) \<and>
         (\<forall>v'. TasksController_create (gateway\<lparr>new_task := TaskFactory_new_task factory\<rparr>)
                  req (props(''status'' \<mapsto> v')) s =
               TasksController_create (gateway\<lparr>new_task := TaskFactory_new_task factory\<rparr>)
                  req props s)"
proof -
  from deserializer_returns [OF assms(3)] assms(1)
  have "[''task'' \<mapsto> props] = [''task'' \<mapsto> body |` {''type'', ''status'', ''owner''}]"
    unfolding set_base_properties by auto
  then have "props = body |` {''type'', ''status'', ''owner''}"
    by (metis fun_upd_same option.inject)
  with assms(2) have st: "props ''status'' = Some v"
    by simp
  have added: "status t = ''queued'' \<and> task_id t = fst (generate_id factory s)"
    if "RepoAdd t \<in> set calls" for t
    using assms(4) that
    by (auto simp: TasksController_create_def journalled_sel journal_apply
        split: prod.splits sum.splits dest!: new_task_queued)
  have returned: "RepoAdd t \<in> set calls" if "r = Inr t" for t
    using assms(4) that
    by (auto simp: TasksController_create_def journalled_sel journal_apply
        split: prod.splits sum.splits)
  have same: "TasksController_create (gateway\<lparr>new_task := TaskFactory_new_task factory\<rparr>)
                  req (props(''status'' \<mapsto> v')) s =
               TasksController_create (gateway\<lparr>new_task := TaskFactory_new_task factory\<rparr>)
                  req props s" for v'
    by (simp add: TasksController_create_def new_task_any_status [of props v, OF st])
  from st added returned same show ?thesis by blast
qed

theorem created_task_starts_queued_witness:
  "RequestDeserializer_create
     (\<lambda>request :: unit. [''body'' \<mapsto> [''type'' \<mapsto> ''import'', ''status'' \<mapsto> ''success'']])
     (\<lambda>msg. msg) () = Inr [''task'' \<mapsto> [''type'' \<mapsto> ''import'', ''status'' \<mapsto> ''success'']] \<and>
   TasksController_create (journalled list_gateway) \<lparr>req_context = ()\<rparr>
     [''type'' \<mapsto> ''import'', ''status'' \<mapsto> ''success''] ([], []) =
     (Inr \<lparr>type = ''import'', status = ''queued'', owner = ''alice'', message = [],
           task_id = ''task-I'', created_at = ''2013-01-01T00:00:00Z'',
           updated_at = ''2013-01-01T00:00:00Z''\<rparr>,
      ([NewTask \<lparr>req_context = ()\<rparr> [''type'' \<mapsto> ''import'', ''status'' \<mapsto> ''success''],
        RepoAdd \<lparr>type = ''import'', status = ''queued'', owner = ''alice'', message = [],
           task_id = ''task-I'', created_at = ''2013-01-01T00:00:00Z'',
           updated_at = ''2013-01-01T00:00:00Z''\<rparr>,
        TaskRun \<lparr>type = ''import'', status = ''queued'', owner = ''alice'', message = [],
           task_id = ''task-I'', created_at = ''2013-01-01T00:00:00Z'',
           updated_at = ''2013-01-01T00:00:00Z''\<rparr>],
       [\<lparr>type = ''import'', status = ''processing'', owner = ''alice'', message = [],
           task_id = ''task-I'', created_at = ''2013-01-01T00:00:00Z'',
           updated_at = ''2013-01-01T00:00:00Z''\<rparr>])) \<and>
   fst (generate_id list_factory []) = ''task-I''"
proof -
  let ?props = "[''type'' \<mapsto> ''import'', ''status'' \<mapsto> ''success'']"
  let ?default = "\<lambda>request :: unit. [''body'' \<mapsto> ?props]"
  let ?req = "\<lparr>req_context = ()\<rparr>"
  let ?t = "\<lparr>type = ''import'', status = ''queued'', owner = ''alice'', message = [],
           task_id = ''task-I'', created_at = ''2013-01-01T00:00:00Z'',
           updated_at = ''2013-01-01T00:00:00Z''\<rparr>"
  have g: "list_gateway\<lparr>new_task := TaskFactory_new_task list_factory\<rparr> = list_gateway"
    by (simp add: list_gateway_def)
  have h1: "?default () ''body'' = Some ?props"
    by simp
  have h2: "?props ''status'' = Some ''success''"
    by simp
  have h3: "RequestDeserializer_create ?default (\<lambda>msg. msg) () = Inr [''task'' \<mapsto> ?props]"
    by (simp add: RequestDeserializer_create_def get_request_body_def check_allowed_def
        disallowed_properties_def base_properties_def pop_def)
  have new: "TaskFactory_new_task list_factory () ?req ?props [] = (Inr ?t, [])"
    by (simp add: TaskFactory_new_task_def list_factory_def disallowed_properties_def
        task_types_def)
  have h4: "TasksController_create
      (journalled (list_gateway\<lparr>new_task := TaskFactory_new_task list_factory\<rparr>)) ?req ?props ([], []) =
     (Inr ?t, ([NewTask ?req ?props, RepoAdd ?t, TaskRun ?t], [?t\<lparr>status := ''processing''\<rparr>]))"
    unfolding g
    by (simp add: TasksController_create_def journalled_sel journal_apply list_gateway_sel new)
  from created_task_starts_queued
    [where super_default = ?default and request = "()" and body = ?props and v = "''success''"
       and gettext = "\<lambda>msg. msg" and props = ?props and gateway = list_gateway
       and factory = list_factory and req = ?req and s = "[]", OF h1 h2 h3 h4]
  have "task_id ?t = fst (generate_id list_factory [])"
    by blast
  with h3 h4 show ?thesis
    unfolding g by simp
qed

subsection \<open>The order of the calls of create, and what a raised call leaves\<close>

text \<open>
  Claim C3, as the code has it. \<open>TasksController.create\<close> calls the factory's
  \<open>new_task\<close>, then the repository's \<open>add\<close>, then the task's \<open>run\<close>, each on the
  state the call before left, and stops at the first call that raises. The exception
  goes through the handler, so a Forbidden of any of the three reaches the caller as
  HTTPForbidden. Nothing is undone: the state after \<open>create\<close> is the state the last
  call left, so when \<open>run\<close> raises, the task \<open>add\<close> has stored stays stored. When
  all three return, \<open>create\<close> returns the task.
\<close>

theorem create_calls_in_order:
  assumes "TasksController_create (journalled gateway) req task ([], s) = (r, (calls, s'))"
  shows "(\<exists>e. new_task gateway (req_context req) req task s = (Inl e, s') \<and>
              r = Inl (except_Forbidden e) \<and> calls = [NewTask req task])
       \<or> (\<exists>t s1 e. new_task gateway (req_context req) req task s = (Inr t, s1) \<and>
              repo_add gateway (req_context req) t s1 = (Inl e, s') \<and>
              r = Inl (except_Forbidden e) \<and> calls = [NewTask req task, RepoAdd t])
       \<or> (\<exists>t s1 s2 e. new_task gateway (req_context req) req task s = (Inr t, s1) \<and>
              repo_add gateway (req_context req) t s1 = (Inr (), s2) \<and>
              task_run gateway t s2 = (Inl e, s') \<and>
              r = Inl (except_Forbidden e) \<and>
              calls = [NewTask req task, RepoAdd t, TaskRun t])
       \<or> (\<exists>t s1 s2. new_task gateway (req_context req) req task s = (Inr t, s1) \<and>
              repo_add gateway (req_context req) t s1 = (Inr (), s2) \<and>
              task_run gateway t s2 = (Inr (), s') \<and>
              r = Inr t \<and> calls = [NewTask req task, RepoAdd t, TaskRun t])"
  using assms
  by (auto simp: TasksController_create_def journalled_sel journal_apply
      split: prod.splits sum.splits)

theorem create_calls_in_order_witness:
  "TasksController_create (journalled (store_gateway [''run'']))
     \<lparr>req_context = ()\<rparr> [''type'' \<mapsto> ''import''] ([], []) =
     (Inl (HTTPForbidden ''You are not authorized to run a task.''),
      ([NewTask \<lparr>req_context = ()\<rparr> [''type'' \<mapsto> ''import''], RepoAdd ''task-I'', TaskRun ''task-I''],
       [(''task-I'', ''queued'')])) \<and>
   task_run (store_gateway [''run'']) ''task-I'' [(''task-I'', ''queued'')] = 
     (Inl (Forbidden ''You are not authorized to run a task.''), [(''task-I'', ''queued'')])"
proof -
  have run: "TasksController_create (journalled (store_gateway [''run'']))
     \<lparr>req_context = ()\<rparr> [''type'' \<mapsto> ''import''] ([], []) =
     (Inl (HTTPForbidden ''You are not authorized to run a task.''),
      ([NewTask \<lparr>req_context = ()\<rparr> [''type'' \<mapsto> ''import''], RepoAdd ''task-I'', TaskRun ''task-I''],
       [(''task-I'', ''queued'')]))"
    by (simp add: TasksController_create_def journalled_sel journal_apply store_gateway_sel
        denial_def fresh_id_def)
  from create_calls_in_order [OF run] run show ?thesis
    by (simp add: store_gateway_sel denial_def fresh_id_def)
qed

text \<open>
  A gateway whose policy denies \<open>run\<close>, on an empty repository: the caller gets
  HTTPForbidden, and the repository holds the task, in the status it was added with.
\<close>

theorem run_denied_counterexample:
  "TasksController_create (store_gateway [''run'']) \<lparr>req_context = ()\<rparr>
     [''type'' \<mapsto> ''import''] [] =
     (Inl (HTTPForbidden ''You are not authorized to run a task.''), [(''task-I'', ''queued'')])"
  by (simp add: TasksController_create_def store_gateway_sel denial_def fresh_id_def)

subsection \<open>What the caller is told of a denial\<close>

text \<open>
  Claim C7, as the code has it. When the factory's \<open>new_task\<close>, the repository's
  \<open>add\<close> or the task's \<open>run\<close> raises Forbidden during \<open>create\<close>, the caller gets
  HTTPForbidden (a client error) whose explanation is the text of the exception
  caught, \<open>unicode(e)\<close>: whatever the collaborator said of the denial is passed on.
\<close>

theorem create_forbidden_explanation:
  "(new_task gateway (req_context req) req task s = (Inl (Forbidden msg), s1) \<longrightarrow>
      TasksController_create gateway req task s = (Inl (HTTPForbidden msg), s1)) \<and>
   (new_task gateway (req_context req) req task s = (Inr t, s1) \<and>
    repo_add gateway (req_context req) t s1 = (Inl (Forbidden msg), s2) \<longrightarrow>
      TasksController_create gateway req task s = (Inl (HTTPForbidden msg), s2)) \<and>
   (new_task gateway (req_context req) req task s = (Inr t, s1) \<and>
    repo_add gateway (req_context req) t s1 = (Inr (), s2) \<and>
    task_run gateway t s2 = (Inl (Forbidden msg), s3) \<longrightarrow>
      TasksController_create gateway req task s = (Inl (HTTPForbidden msg), s3))"
  by (simp add: TasksController_create_def)

theorem create_forbidden_explanation_witness:
  "new_task (store_gateway [''create'']) () \<lparr>req_context = ()\<rparr> [''type'' \<mapsto> ''import''] [] =
     (Inl (Forbidden ''You are not authorized to create a task.''), []) \<and>
   TasksController_create (store_gateway [''create'']) \<lparr>req_context = ()\<rparr>
     [''type'' \<mapsto> ''import''] [] =
     (Inl (HTTPForbidden ''You are not authorized to create a task.''), []) \<and>
   repo_add (store_gateway [''add'']) () ''task-I'' [] =
     (Inl (Forbidden ''You are not authorized to add a task.''), []) \<and>
   TasksController_create (store_gateway [''add'']) \<lparr>req_context = ()\<rparr>
     [''type'' \<mapsto> ''import''] [] =
     (Inl (HTTPForbidden ''You are not authorized to add a task.''), []) \<and>
   task_run (store_gateway [''run'']) ''task-I'' [(''task-I'', ''queued'')] =
     (Inl (Forbidden ''You are not authorized to run a task.''), [(''task-I'', ''queued'')]) \<and>
   TasksController_create (store_gateway [''run'']) \<lparr>req_context = ()\<rparr>
     [''type'' \<mapsto> ''import''] [] =
     (Inl (HTTPForbidden ''You are not authorized to run a task.''), [(''task-I'', ''queued'')])"
proof -
  let ?req = "\<lparr>req_context = ()\<rparr>"
  let ?task = "[''type'' \<mapsto> ''import'']"
  have c: "new_task (store_gateway [''create'']) (req_context ?req) ?req ?task [] =
     (Inl (Forbidden ''You are not authorized to create a task.''), [])"
    by (simp add: store_gateway_sel denial_def)
  have a1: "new_task (store_gateway [''add'']) (req_context ?req) ?req ?task [] = (Inr ''task-I'', [])"
    by (simp add: store_gateway_sel denial_def fresh_id_def)
  have a2: "repo_add (store_gateway [''add'']) (req_context ?req) ''task-I'' [] =
     (Inl (Forbidden ''You are not authorized to add a task.''), [])"
    by (simp add: store_gateway_sel denial_def)
  have r1: "new_task (store_gateway [''run'']) (req_context ?req) ?req ?task [] = (Inr ''task-I'', [])"
    by (simp add: store_gateway_sel denial_def fresh_id_def)
  have r2: "repo_add (store_gateway [''run'']) (req_context ?req) ''task-I'' [] =
     (Inr (), [(''task-I'', ''queued'')])"
    by (simp add: store_gateway_sel denial_def)
  have r3: "task_run (store_gateway [''run'']) ''task-I'' [(''task-I'', ''queued'')] =
     (Inl (Forbidden ''You are not authorized to run a task.''), [(''task-I'', ''queued'')])"
    by (simp add: store_gateway_sel denial_def)
  from create_forbidden_explanation
    [of "store_gateway [''create'']" ?req ?task "[]" "''You are not authorized to create a task.''" "[]"]
    c
  have 1: "TasksController_create (store_gateway [''create'']) ?req ?task [] =
     (Inl (HTTPForbidden ''You are not authorized to create a task.''), [])"
    by blast
  from create_forbidden_explanation
    [of "store_gateway [''add'']" ?req ?task "[]" "''You are not authorized to add a task.''" "[]"
      "''task-I''" "[]"]
    a1 a2
  have 2: "TasksController_create (store_gateway [''add'']) ?req ?task [] =
     (Inl (HTTPForbidden ''You are not authorized to add a task.''), [])"
    by blast
  from create_forbidden_explanation
    [of "store_gateway [''run'']" ?req ?task "[]" "''You are not authorized to run a task.''" "[]"
      "''task-I''" "[(''task-I'', ''queued'')]" "[(''task-I'', ''queued'')]"]
    r1 r2 r3
  have 3: "TasksController_create (store_gateway [''run'']) ?req ?task [] =
     (Inl (HTTPForbidden ''You are not authorized to run a task.''), [(''task-I'', ''queued'')])"
    by blast
  from c a2 r3 1 2 3 show ?thesis by simp
qed

text \<open>
  A gateway whose policy denies \<open>create\<close>: the explanation the caller gets is the
  text of the denial.
\<close>

theorem explanation_counterexample:
  "TasksController_create (store_gateway [''create'']) \<lparr>req_context = ()\<rparr>
     [''type'' \<mapsto> ''import''] [] =
     (Inl (HTTPForbidden ''You are not authorized to create a task.''), [])"
  by (simp add: TasksController_create_def store_gateway_sel denial_def)

subsection \<open>The order of the calls of kill\<close>



section \<open>Properties of the serializer\<close>

text \<open>\<open>_format_task\<close> never raises: the attributes it asks a task for are there.\<close>

lemma format_task_eq:
  "format_task schema_filter isotime task =
     Inr (schema_filter
       [''type'' \<mapsto> Attr (type task), ''status'' \<mapsto> Attr (status task),
        ''owner'' \<mapsto> Attr (owner task), ''message'' \<mapsto> Attr (message task),
        ''id'' \<mapsto> Attr (task_id task),
        ''created_at'' \<mapsto> Str (isotime (created_at task)),
        ''updated_at'' \<mapsto> Str (isotime (updated_at task)),
        ''schema'' \<mapsto> Str ''/v2/schemas/task''])"
  by (simp add: format_task_def getattr_def)

subsection \<open>The task view\<close>




subsection \<open>The response to create and the response to get\<close>

text \<open>
  Claim C10. For every task, \<open>ResponseSerializer.create\<close> and
  \<open>ResponseSerializer.get\<close> return, and give the response the same body and the
  same content type, whatever the responses they start from; \<open>create\<close> sets the
  status to 201, \<open>get\<close> leaves the status as it was.
\<close>

theorem create_body_is_get_body:
  "\<exists>rc rg. ResponseSerializer_create schema_filter isotime dumps response task = Inr rc \<and>
           ResponseSerializer_get schema_filter isotime dumps response' task = Inr rg \<and>
           unicode_body rc = unicode_body rg \<and>
           content_type rc = content_type rg \<and>
           status_int rc = 201 \<and>
           status_int rg = status_int response'"
  by (simp add: ResponseSerializer_create_def ResponseSerializer_get_def format_task_eq)

end
